theory Spec2Isabelle
  imports Main "HOL-Library.AList"
begin

section \<open>JavaScript values\<close>

text \<open>
  The front end handles JSON data: values parsed from \<^verbatim>\<open>localStorage\<close> and from
  HTTP responses. A value is a primitive or an object, an object being its list of
  own properties in insertion order with distinct keys. Arrays are not values of the
  model: the lists the front end works on (the triggers of TriggerManager) are lists
  of objects, and where a handler only stores an array it received, the model does not
  look at it. Numbers are the integers (identifiers and counts); a \<^typ>\<open>char\<close> of a
  string stands for one code unit.
\<close>

datatype jsval =
    JUndefined
  | JNull
  | JBool bool
  | JNum int
  | JStr string
  | JObj "(string \<times> jsval) list"

type_synonym jsobj = "(string \<times> jsval) list"

text \<open>Truthiness, as \<^verbatim>\<open>if (v)\<close>, \<^verbatim>\<open>!v\<close>, \<^verbatim>\<open>a || b\<close> and \<^verbatim>\<open>a && b\<close> test it.\<close>

fun truthy :: "jsval \<Rightarrow> bool" where
  "truthy JUndefined = False"
| "truthy JNull = False"
| "truthy (JBool b) = b"
| "truthy (JNum n) = (n \<noteq> 0)"
| "truthy (JStr s) = (s \<noteq> [])"
| "truthy (JObj kvs) = True"

text \<open>\<^verbatim>\<open>a || b\<close>: the first operand when it is truthy, the second otherwise.\<close>

definition js_or :: "jsval \<Rightarrow> jsval \<Rightarrow> jsval" where
  "js_or a b = (if truthy a then a else b)"

text \<open>\<^verbatim>\<open>o.k\<close> on an object: the property's value, \<^verbatim>\<open>undefined\<close> when it has none.\<close>

definition obj_get :: "jsobj \<Rightarrow> string \<Rightarrow> jsval" where
  "obj_get kvs k = (case map_of kvs k of None \<Rightarrow> JUndefined | Some v \<Rightarrow> v)"

text \<open>The exceptions the code of this front end can run into.\<close>

datatype js_error = TypeError | RangeError

text \<open>
  \<^verbatim>\<open>v.k\<close> on any value, for a property name \<^verbatim>\<open>k\<close> that no primitive wrapper has:
  reading a property of \<^verbatim>\<open>undefined\<close> or \<^verbatim>\<open>null\<close> throws a TypeError, a boolean,
  number or string yields \<^verbatim>\<open>undefined\<close>.
\<close>

fun get_prop :: "jsval \<Rightarrow> string \<Rightarrow> js_error + jsval" where
  "get_prop JUndefined k = Inl TypeError"
| "get_prop JNull k = Inl TypeError"
| "get_prop (JObj kvs) k = Inr (obj_get kvs k)"
| "get_prop v k = Inr JUndefined"

text \<open>\<^verbatim>\<open>v?.k\<close>: \<^verbatim>\<open>undefined\<close> when \<^verbatim>\<open>v\<close> is \<^verbatim>\<open>undefined\<close> or \<^verbatim>\<open>null\<close>.\<close>

fun opt_chain :: "jsval \<Rightarrow> string \<Rightarrow> jsval" where
  "opt_chain (JObj kvs) k = obj_get kvs k"
| "opt_chain v k = JUndefined"

section \<open>Effects: notifications, HTTP requests, the console\<close>

text \<open>
  A template literal keeps its parts: the literal text and the interpolated values.
  A plain string message is a single literal part; a message that is a variable is a
  single value part.
\<close>

datatype tpart = Lit string | Val jsval

type_synonym template = "tpart list"

datatype toast =
    ToastSuccess template
  | ToastError template
  | ToastLoading template
  | ToastInfo template
  | ToastDismiss

datatype http_method = GET | POST | PUT | DELETE

record request =
  req_method :: http_method
  req_url :: template
  req_params :: jsobj
  req_body :: jsval

text \<open>
  What a handler does, in order: the notifications it shows (react-hot-toast), the
  HTTP requests that leave the browser, and its console output.
\<close>

datatype event =
    is_Toast: Toast toast
  | is_Http: Http request
  | is_Console: ConsoleError
  | ConsoleLog

section \<open>services/api.js\<close>

text \<open>
  The backend answers a request with an error object (the axios error: a
  \<^verbatim>\<open>message\<close>, and a \<^verbatim>\<open>response\<close> when the server replied) or with the data of the
  response.
\<close>

type_synonym backend = "request \<Rightarrow> jsobj + jsval"

text \<open>
  The response interceptor's error handler:
  \<^verbatim>\<open>error.response?.data?.detail || error.message || 'An error occurred'\<close> is shown as
  an error toast and the error is rejected on to the caller.
\<close>

definition error_message :: "jsobj \<Rightarrow> jsval" where
  "error_message error =
     js_or (opt_chain (opt_chain (obj_get error ''response'') ''data'') ''detail'')
       (js_or (obj_get error ''message'') (JStr ''An error occurred''))"

definition response_rejected :: "jsobj \<Rightarrow> event list \<times> jsobj" where
  "response_rejected error = ([Toast (ToastError [Val (error_message error)])], error)"

text \<open>
  A request through the axios instance \<^verbatim>\<open>api\<close>: it is sent once; a successful
  response passes the interceptor unchanged, a failed one goes through
  \<^const>\<open>response_rejected\<close>.
\<close>

definition api_request :: "backend \<Rightarrow> request \<Rightarrow> event list \<times> (jsobj + jsval)" where
  "api_request backend req =
     (case backend req of
        Inl error \<Rightarrow> (case response_rejected error of (evs, e) \<Rightarrow> (Http req # evs, Inl e))
      | Inr data \<Rightarrow> ([Http req], Inr data))"

text \<open>The methods of \<^verbatim>\<open>emailAPI\<close>, each building the request it sends.\<close>

definition mk_request :: "http_method \<Rightarrow> template \<Rightarrow> jsobj \<Rightarrow> jsval \<Rightarrow> request" where
  "mk_request m u ps b = \<lparr>req_method = m, req_url = u, req_params = ps, req_body = b\<rparr>"

definition getAuthUrl :: "jsval \<Rightarrow> request" where
  "getAuthUrl provider = mk_request GET [Lit ''/auth/'', Val provider, Lit ''/login''] [] JUndefined"

definition handleCallback :: "jsval \<Rightarrow> jsval \<Rightarrow> request" where
  "handleCallback provider code =
     mk_request GET [Lit ''/auth/'', Val provider, Lit ''/callback''] [(''code'', code)] JUndefined"

definition getSupportedProviders :: request where
  "getSupportedProviders = mk_request GET [Lit ''/providers''] [] JUndefined"

text \<open>\<^verbatim>\<open>(userId, limit = 10)\<close>: the default stands in for an \<^verbatim>\<open>undefined\<close> argument.\<close>

definition getUserEmails :: "jsval \<Rightarrow> jsval \<Rightarrow> request" where
  "getUserEmails userId limit =
     mk_request GET [Lit ''/users/'', Val userId, Lit ''/emails'']
       [(''limit'', if limit = JUndefined then JNum 10 else limit)] JUndefined"

definition getTriggers :: "jsval \<Rightarrow> request" where
  "getTriggers userId = mk_request GET [Lit ''/users/'', Val userId, Lit ''/triggers''] [] JUndefined"

definition createTrigger :: "jsval \<Rightarrow> jsval \<Rightarrow> request" where
  "createTrigger userId triggerData =
     mk_request POST [Lit ''/users/'', Val userId, Lit ''/triggers''] [] triggerData"

definition updateTrigger :: "jsval \<Rightarrow> jsval \<Rightarrow> jsval \<Rightarrow> request" where
  "updateTrigger userId triggerId triggerData =
     mk_request PUT [Lit ''/users/'', Val userId, Lit ''/triggers/'', Val triggerId] [] triggerData"

definition deleteTrigger :: "jsval \<Rightarrow> jsval \<Rightarrow> request" where
  "deleteTrigger userId triggerId =
     mk_request DELETE [Lit ''/users/'', Val userId, Lit ''/triggers/'', Val triggerId] [] JUndefined"

definition testEmailNotification :: "jsval \<Rightarrow> request" where
  "testEmailNotification userId =
     mk_request POST [Lit ''/test-email-notification/'', Val userId] [] JUndefined"

definition startEmailMonitoring :: "jsval \<Rightarrow> request" where
  "startEmailMonitoring userId =
     mk_request GET [Lit ''/start-email-monitoring/'', Val userId] [] JUndefined"

definition debugOAuthCredentials :: request where
  "debugOAuthCredentials = mk_request GET [Lit ''/debug-oauth-credentials''] [] JUndefined"

definition testOAuth :: request where
  "testOAuth = mk_request GET [Lit ''/auth/test-oauth''] [] JUndefined"

definition healthCheck :: request where
  "healthCheck = mk_request GET [Lit ''/health''] [] JUndefined"

text \<open>An argument list read by position; a missing argument is \<^verbatim>\<open>undefined\<close>.\<close>

definition arg :: "jsval list \<Rightarrow> nat \<Rightarrow> jsval" where
  "arg args i = (if i < length args then args ! i else JUndefined)"

text \<open>The object \<^verbatim>\<open>emailAPI\<close>: its property names and the functions they hold.\<close>

definition emailAPI :: "(string \<times> (jsval list \<Rightarrow> request)) list" where
  "emailAPI =
    [(''getAuthUrl'', \<lambda>args. getAuthUrl (arg args 0)),
     (''handleCallback'', \<lambda>args. handleCallback (arg args 0) (arg args 1)),
     (''getSupportedProviders'', \<lambda>args. getSupportedProviders),
     (''getUserEmails'', \<lambda>args. getUserEmails (arg args 0) (arg args 1)),
     (''getTriggers'', \<lambda>args. getTriggers (arg args 0)),
     (''createTrigger'', \<lambda>args. createTrigger (arg args 0) (arg args 1)),
     (''updateTrigger'', \<lambda>args. updateTrigger (arg args 0) (arg args 1) (arg args 2)),
     (''deleteTrigger'', \<lambda>args. deleteTrigger (arg args 0) (arg args 1)),
     (''testEmailNotification'', \<lambda>args. testEmailNotification (arg args 0)),
     (''startEmailMonitoring'', \<lambda>args. startEmailMonitoring (arg args 0)),
     (''debugOAuthCredentials'', \<lambda>args. debugOAuthCredentials),
     (''testOAuth'', \<lambda>args. testOAuth),
     (''healthCheck'', \<lambda>args. healthCheck)]"

text \<open>
  \<^verbatim>\<open>emailAPI.name(args)\<close>, for a name that is not one of the methods every object
  inherits (\<^verbatim>\<open>toString\<close>, \<^verbatim>\<open>valueOf\<close> and the like, which no handler calls): calling
  a property the object does not have calls \<^verbatim>\<open>undefined\<close>, which throws a TypeError
  before any request is built.
\<close>

definition emailAPI_call :: "string \<Rightarrow> jsval list \<Rightarrow> js_error + request" where
  "emailAPI_call name args =
     (case map_of emailAPI name of None \<Rightarrow> Inl TypeError | Some f \<Rightarrow> Inr (f args))"

section \<open>Test actions of the dashboard and the settings page\<close>

text \<open>
  \<^verbatim>\<open>handleTestTrigger\<close> of EmailDashboard: the call and the success toast stand in a
  \<^verbatim>\<open>try\<close> whose \<^verbatim>\<open>catch\<close> shows the failure toast.
\<close>

definition handleTestTrigger :: "backend \<Rightarrow> jsval \<Rightarrow> event list" where
  "handleTestTrigger backend effectiveUserId =
     (case emailAPI_call ''testTrigger'' [effectiveUserId] of
        Inl e \<Rightarrow> [Toast (ToastError [Lit ''Failed to test triggers''])]
      | Inr req \<Rightarrow>
          (case api_request backend req of
             (evs, Inl error) \<Rightarrow> evs @ [Toast (ToastError [Lit ''Failed to test triggers''])]
           | (evs, Inr data) \<Rightarrow>
               evs @ [Toast (ToastSuccess [Lit ''Trigger test completed! Check console for details.''])]))"

text \<open>
  \<^verbatim>\<open>testEmailPermissions\<close> of SettingsPage (EmailDashboard holds the same function).
  The \<^verbatim>\<open>catch\<close> block dismisses the loading toast, shows the failure toast and logs the
  error. The report reads \<^verbatim>\<open>data.error\<close>, \<^verbatim>\<open>data.user_test.success\<close> and
  \<^verbatim>\<open>data.messages_test.success\<close>; \<^verbatim>\<open>&&\<close> reads its right operand only when the left
  one is truthy. The pictographs that open three of the messages are left out.
\<close>

definition permissions_failed :: "event list" where
  "permissions_failed =
     [Toast ToastDismiss, Toast (ToastError [Lit ''Failed to test permissions'']), ConsoleError]"

definition permissions_report :: "jsval \<Rightarrow> event list" where
  "permissions_report data =
     Toast ToastDismiss #
     (case get_prop data ''error'' of
        Inl e \<Rightarrow> permissions_failed
      | Inr err \<Rightarrow>
          if truthy err then [Toast (ToastError [Lit ''Permission test failed: '', Val err])]
          else
            (case get_prop data ''user_test'' of
               Inl e \<Rightarrow> permissions_failed
             | Inr userTest \<Rightarrow>
            (case get_prop data ''messages_test'' of
               Inl e \<Rightarrow> permissions_failed
             | Inr messageTest \<Rightarrow>
            (case get_prop userTest ''success'' of
               Inl e \<Rightarrow> permissions_failed
             | Inr us \<Rightarrow>
                 if truthy us then
                   (case get_prop messageTest ''success'' of
                      Inl e \<Rightarrow> permissions_failed
                    | Inr ms \<Rightarrow>
                        if truthy ms then
                          [Toast (ToastSuccess [Lit ''Email permissions working! You can read emails.'']),
                           ConsoleLog]
                        else
                          [Toast (ToastError
                             [Lit ''Can access profile but cannot read emails. Check permissions.'']),
                           ConsoleLog])
                 else
                   [Toast (ToastError [Lit ''Cannot access Microsoft Graph API. Token may be invalid.'']),
                    ConsoleLog]))))"

definition testEmailPermissions :: "backend \<Rightarrow> jsval \<Rightarrow> event list" where
  "testEmailPermissions backend effectiveUserId =
     Toast (ToastLoading [Lit ''Testing email permissions...'']) #
     (case emailAPI_call ''testEmailPermissions'' [effectiveUserId] of
        Inl e \<Rightarrow> permissions_failed
      | Inr req \<Rightarrow>
          (case api_request backend req of
             (evs, Inl error) \<Rightarrow> evs @ permissions_failed
           | (evs, Inr data) \<Rightarrow> evs @ permissions_report data))"

section \<open>The trigger management surface (TriggerManager, TriggerForm)\<close>

text \<open>An entry of a select list: \<^verbatim>\<open>{ value: ..., label: ... }\<close>.\<close>

record select_option =
  opt_value :: string
  opt_label :: string

definition triggerTypes :: "select_option list" where
  "triggerTypes =
    [\<lparr>opt_value = ''sender_contains'', opt_label = ''Sender contains''\<rparr>,
     \<lparr>opt_value = ''subject_contains'', opt_label = ''Subject contains''\<rparr>,
     \<lparr>opt_value = ''body_contains'', opt_label = ''Body contains''\<rparr>,
     \<lparr>opt_value = ''sender_exact'', opt_label = ''Exact sender''\<rparr>,
     \<lparr>opt_value = ''subject_regex'', opt_label = ''Subject regex''\<rparr>,
     \<lparr>opt_value = ''attachment_exists'', opt_label = ''Has attachments''\<rparr>,
     \<lparr>opt_value = ''time_range'', opt_label = ''Time range''\<rparr>]"

definition actionTypes :: "select_option list" where
  "actionTypes =
    [\<lparr>opt_value = ''log_message'', opt_label = ''Log message''\<rparr>,
     \<lparr>opt_value = ''mark_as_read'', opt_label = ''Mark as read''\<rparr>,
     \<lparr>opt_value = ''forward_email'', opt_label = ''Forward email''\<rparr>,
     \<lparr>opt_value = ''send_notification'', opt_label = ''Send notification''\<rparr>,
     \<lparr>opt_value = ''webhook_call'', opt_label = ''Call webhook''\<rparr>,
     \<lparr>opt_value = ''custom_script'', opt_label = ''Run script''\<rparr>]"

text \<open>
  The state of a TriggerForm, \<^verbatim>\<open>formData\<close>, and the inputs the form renders, in
  document order. The two select inputs carry the values they offer.
\<close>

record formData =
  fd_name :: string
  fd_description :: string
  fd_triggerType :: string
  fd_condition :: string
  fd_action :: string

datatype form_input =
    NameInput
  | TriggerTypeSelect "string list"
  | ConditionInput
  | ActionSelect "string list"
  | DescriptionInput

text \<open>\<^verbatim>\<open>!['attachment_exists'].includes(formData.triggerType)\<close>\<close>

definition needsCondition :: "formData \<Rightarrow> bool" where
  "needsCondition fd = (fd_triggerType fd \<notin> set [''attachment_exists''])"

definition TriggerForm_inputs :: "select_option list \<Rightarrow> select_option list \<Rightarrow> formData \<Rightarrow> form_input list" where
  "TriggerForm_inputs tts ats fd =
    [NameInput, TriggerTypeSelect (map opt_value tts)]
    @ (if needsCondition fd then [ConditionInput] else [])
    @ [ActionSelect (map opt_value ats), DescriptionInput]"

section \<open>TriggerManager: updating and toggling a trigger\<close>






text \<open>The requests among the events of a handler, in the order they are sent.\<close>

definition sent :: "event list \<Rightarrow> request list" where
  "sent evs = concat (map (\<lambda>e. case e of Http r \<Rightarrow> [r] | _ \<Rightarrow> []) evs)"

section \<open>The effective user id (DashboardLayout, TriggersPage, SettingsPage)\<close>

text \<open>
  \<^verbatim>\<open>localStorage\<close> maps keys to strings; \<^verbatim>\<open>getItem\<close> of a missing key is \<^verbatim>\<open>null\<close>.
  \<^verbatim>\<open>JSON.parse\<close> is the browser's: it is a parameter of the model, yielding the parsed
  value or nothing when it throws a SyntaxError.
\<close>

type_synonym localStorage = "string \<rightharpoonup> string"

type_synonym json_parse = "string \<Rightarrow> jsval option"









section \<open>EmailList: subject and body preview of a message\<close>


















section \<open>App.jsx: the routes\<close>

text \<open>
  What AppContent renders: the loading spinner, the login page, a redirect, or the
  dashboard layout for a user with the child page of its outlet. The state \<^verbatim>\<open>user\<close>
  starts as \<^verbatim>\<open>null\<close> and holds whatever value \<^verbatim>\<open>setUser\<close> was given; the fields of the
  state carry the prefix \<open>app_\<close>.
\<close>

datatype page = DashboardHome | EmailsPage | TriggersPage | SettingsPage

datatype element =
    Spinner
  | LoginPage
  | Navigate string
  | DashboardLayout jsval page

record app_state =
  app_user :: jsval
  app_loading :: bool
  app_isProcessingOAuth :: bool

text \<open>
  React Router matches a route path against the decoded pathname of the location
  without regard to letter case and to slashes at its end.
\<close>

definition lower_char :: "char \<Rightarrow> char" where
  "lower_char c =
     (if 65 \<le> (of_char c :: nat) \<and> (of_char c :: nat) \<le> 90 then char_of (of_char c + 32 :: nat) else c)"

definition route_key :: "string \<Rightarrow> string" where
  "route_key pathname = map lower_char (rev (dropWhile (\<lambda>c. c = CHR ''/'') (rev pathname)))"

text \<open>
  The element of \<^verbatim>\<open>/dashboard\<close> and of its four children, \<^verbatim>\<open>user ? ... : ...\<close>: the
  layout when the user state is truthy, with the child in its outlet; otherwise the
  redirect, which has no outlet, so that no child page is rendered.
\<close>

definition dashboard_element :: "jsval \<Rightarrow> page \<Rightarrow> element" where
  "dashboard_element u child = (if truthy u then DashboardLayout u child else Navigate ''/login'')"

text \<open>
  The \<^verbatim>\<open>Routes\<close> element: \<^verbatim>\<open>/login\<close>, \<^verbatim>\<open>/dashboard\<close> with its index route and the
  children \<^verbatim>\<open>emails\<close>, \<^verbatim>\<open>triggers\<close> and \<^verbatim>\<open>settings\<close>, then \<^verbatim>\<open>/\<close> and \<^verbatim>\<open>*\<close>, which
  render the same redirect. Every element tests the user state for truthiness.
\<close>

definition Routes :: "jsval \<Rightarrow> string \<Rightarrow> element" where
  "Routes u pathname =
     (let key = route_key pathname in
      if key = ''/login'' then (if truthy u then Navigate ''/dashboard'' else LoginPage)
      else if key = ''/dashboard'' then dashboard_element u DashboardHome
      else if key = ''/dashboard/emails'' then dashboard_element u EmailsPage
      else if key = ''/dashboard/triggers'' then dashboard_element u TriggersPage
      else if key = ''/dashboard/settings'' then dashboard_element u SettingsPage
      else Navigate (if truthy u then ''/dashboard'' else ''/login''))"

definition AppContent :: "app_state \<Rightarrow> string \<Rightarrow> element" where
  "AppContent st pathname =
     (if app_loading st \<or> app_isProcessingOAuth st then Spinner else Routes (app_user st) pathname)"

text \<open>
  The end of \<^verbatim>\<open>initializeAuth\<close>, reached when the URL carries no OAuth parameter: a
  saved user that is a non-empty string is parsed and becomes the user state, whatever
  value it parses to; an entry that does not parse is removed. Loading ends.
\<close>

definition restore_saved_user :: "json_parse \<Rightarrow> localStorage \<Rightarrow> app_state \<Rightarrow> app_state \<times> localStorage" where
  "restore_saved_user JSON_parse storage st =
     (case storage ''emailTriggerUser'' of
        None \<Rightarrow> (st\<lparr>app_loading := False\<rparr>, storage)
      | Some savedUser \<Rightarrow>
          if savedUser = [] then (st\<lparr>app_loading := False\<rparr>, storage)
          else
            (case JSON_parse savedUser of
               None \<Rightarrow> (st\<lparr>app_loading := False\<rparr>, storage(''emailTriggerUser'' := None))
             | Some userData \<Rightarrow> (st\<lparr>app_user := userData, app_loading := False\<rparr>, storage)))"

section \<open>The time_range rule of the Trigger Rule Engine\<close>

text \<open>
  Modelled from the spec: the rule engine that evaluates triggers is backend code and
  not among the sources; only the front end that names the trigger types is. The
  message carries \<^verbatim>\<open>received_at\<close> as its local time of day, hour and minute. The
  condition of a \<^verbatim>\<open>time_range\<close> rule is a window "HH:MM-HH:MM"; the rule matches when
  the time of day falls within the window, a window whose start is later than its end
  running across midnight. The spec does not say whether the first and the last minute
  of the window belong to it: both readings are parameters. A condition that is not a
  window matches nothing.
\<close>

record unified_message =
  sender :: string
  subject :: string
  body :: string
  received_at :: "nat \<times> nat"
  is_read :: bool

definition digit_of :: "char \<Rightarrow> nat option" where
  "digit_of c =
     (if 48 \<le> (of_char c :: nat) \<and> (of_char c :: nat) \<le> 57 then Some (of_char c - 48) else None)"

text \<open>"HH:MM" as minutes since midnight.\<close>

definition parse_hhmm :: "string \<Rightarrow> nat option" where
  "parse_hhmm s =
     (case s of
        [h1, h2, c, m1, m2] \<Rightarrow>
          (case (digit_of h1, digit_of h2, digit_of m1, digit_of m2) of
             (Some a, Some b, Some d, Some e) \<Rightarrow>
               if c = CHR '':'' \<and> 10 * a + b < 24 \<and> 10 * d + e < 60
               then Some (60 * (10 * a + b) + (10 * d + e))
               else None
           | _ \<Rightarrow> None)
      | _ \<Rightarrow> None)"

definition parse_window :: "string \<Rightarrow> (nat \<times> nat) option" where
  "parse_window condition =
     (if length condition = 11 \<and> condition ! 5 = CHR ''-'' then
        (case (parse_hhmm (take 5 condition), parse_hhmm (drop 6 condition)) of
           (Some s, Some e) \<Rightarrow> Some (s, e)
         | _ \<Rightarrow> None)
      else None)"

definition in_window :: "bool \<Rightarrow> bool \<Rightarrow> nat \<Rightarrow> nat \<Rightarrow> nat \<Rightarrow> bool" where
  "in_window with_start with_end s e t =
     (let from_start = (s < t \<or> (with_start \<and> t = s));
          to_end = (t < e \<or> (with_end \<and> t = e))
      in if s \<le> e then from_start \<and> to_end else from_start \<or> to_end)"

definition time_range_matches :: "bool \<Rightarrow> bool \<Rightarrow> string \<Rightarrow> 'a unified_message_scheme \<Rightarrow> bool" where
  "time_range_matches with_start with_end condition m =
     (case parse_window condition of
        None \<Rightarrow> False
      | Some (s, e) \<Rightarrow>
          in_window with_start with_end s e (60 * fst (received_at m) + snd (received_at m)))"

section \<open>Closed enumerations of the management surface\<close>

text \<open>
  C6: the trigger types offered are exactly sender_contains, subject_contains,
  body_contains, sender_exact, subject_regex, attachment_exists and time_range, and
  the actions offered are exactly log_message, mark_as_read, forward_email,
  send_notification, webhook_call and custom_script: each list has every member once
  and no other, and the form built from them offers these values and no other.
\<close>

theorem trigger_and_action_enums_closed:
  "set (map opt_value triggerTypes) =
     {''sender_contains'', ''subject_contains'', ''body_contains'', ''sender_exact'',
      ''subject_regex'', ''attachment_exists'', ''time_range''}
   \<and> distinct (map opt_value triggerTypes)
   \<and> length triggerTypes = 7
   \<and> set (map opt_value actionTypes) =
     {''log_message'', ''mark_as_read'', ''forward_email'', ''send_notification'',
      ''webhook_call'', ''custom_script''}
   \<and> distinct (map opt_value actionTypes)
   \<and> length actionTypes = 6
   \<and> TriggerTypeSelect (map opt_value triggerTypes) \<in> set (TriggerForm_inputs triggerTypes actionTypes fd)
   \<and> ActionSelect (map opt_value actionTypes) \<in> set (TriggerForm_inputs triggerTypes actionTypes fd)"
  by (simp add: triggerTypes_def actionTypes_def TriggerForm_inputs_def)

text \<open>
  C7: the create/edit form leaves the condition input out exactly when the selected
  trigger type is attachment_exists, and renders it for every other trigger type.
\<close>

theorem condition_input_iff_not_attachment_exists:
  "(ConditionInput \<in> set (TriggerForm_inputs tts ats fd)) = (fd_triggerType fd \<noteq> ''attachment_exists'')"
  by (simp add: TriggerForm_inputs_def needsCondition_def)

section \<open>The test actions never reach the backend\<close>

lemma emailAPI_no_testTrigger: "map_of emailAPI ''testTrigger'' = None"
  by (simp add: emailAPI_def)

lemma emailAPI_no_testEmailPermissions: "map_of emailAPI ''testEmailPermissions'' = None"
  by (simp add: emailAPI_def)

text \<open>
  C2: the Test Email Permissions action calls \<^verbatim>\<open>emailAPI.testEmailPermissions\<close>, a
  property \<^verbatim>\<open>emailAPI\<close> does not have. For every backend and every user id the call
  throws before any request is sent: the action shows the loading toast, dismisses it
  and reports "Failed to test permissions"; no profile or messages flag is ever
  received.
\<close>

theorem testEmailPermissions_fails_before_request:
  "testEmailPermissions backend effectiveUserId =
     [Toast (ToastLoading [Lit ''Testing email permissions...'']), Toast ToastDismiss,
      Toast (ToastError [Lit ''Failed to test permissions'']), ConsoleError]
   \<and> filter is_Http (testEmailPermissions backend effectiveUserId) = []"
  by (simp add: testEmailPermissions_def emailAPI_call_def emailAPI_no_testEmailPermissions
      permissions_failed_def)

text \<open>
  C3: the Test Triggers action calls \<^verbatim>\<open>emailAPI.testTrigger\<close>, a property
  \<^verbatim>\<open>emailAPI\<close> does not have. For every backend and every user id the call throws
  before any request is sent, and the action reports "Failed to test triggers", never
  success.
\<close>

theorem handleTestTrigger_fails_before_request:
  "handleTestTrigger backend effectiveUserId = [Toast (ToastError [Lit ''Failed to test triggers''])]
   \<and> filter is_Http (handleTestTrigger backend effectiveUserId) = []"
  by (simp add: handleTestTrigger_def emailAPI_call_def emailAPI_no_testTrigger)

section \<open>Failed requests are shown to the user\<close>








section \<open>Toggling a trigger changes its active flag only\<close>





lemma sent_simps [simp]:
  "sent [] = []"
  "sent (Http r # evs) = r # sent evs"
  "sent (Toast t # evs) = sent evs"
  "sent (ConsoleError # evs) = sent evs"
  "sent (ConsoleLog # evs) = sent evs"
  "sent (xs @ ys) = sent xs @ sent ys"
  by (simp_all add: sent_def)







section \<open>Where the effective user id comes from\<close>






section \<open>Messages without subject or body\<close>






section \<open>A window across midnight\<close>

lemma parse_window_night: "parse_window ''22:00-06:00'' = Some (1320, 360)"
  by (simp add: parse_window_def parse_hhmm_def digit_of_def)

text \<open>
  C8: for every message, the \<^verbatim>\<open>time_range\<close> rule with condition "22:00-06:00" matches
  when the message was received at 23:30 and when it was received at 05:00, and does
  not match when it was received at 12:00, whichever way the two boundary minutes of a
  window are read.
\<close>

theorem time_range_wraps_midnight:
  "time_range_matches with_start with_end ''22:00-06:00'' (m\<lparr>received_at := (23, 30)\<rparr>)
   \<and> time_range_matches with_start with_end ''22:00-06:00'' (m\<lparr>received_at := (5, 0)\<rparr>)
   \<and> \<not> time_range_matches with_start with_end ''22:00-06:00'' (m\<lparr>received_at := (12, 0)\<rparr>)"
  by (simp add: time_range_matches_def parse_window_night in_window_def)

section \<open>No dashboard without a user\<close>

lemma route_key_login: "route_key ''/login'' = ''/login''"
  by (simp add: route_key_def lower_char_def)

lemma Routes_falsy:
  "\<not> truthy u \<Longrightarrow> Routes u pathname = LoginPage \<or> Routes u pathname = Navigate ''/login''"
  by (simp add: Routes_def dashboard_element_def Let_def)

text \<open>
  C10, as stated, fails in its second half. The saved user "0" parses to the number 0,
  which \<^verbatim>\<open>initializeAuth\<close> stores as the user state: a state that is not \<^verbatim>\<open>null\<close>, for
  which \<^verbatim>\<open>/login\<close> renders the login page and not the redirect to \<^verbatim>\<open>/dashboard\<close>.
\<close>

theorem falsy_user_counterexample:
  "app_user (fst (restore_saved_user (map_of [(''0'', JNum 0)]) (map_of [(''emailTriggerUser'', ''0'')])
       \<lparr>app_user = JNull, app_loading = True, app_isProcessingOAuth = False\<rparr>)) = JNum 0
   \<and> JNum 0 \<noteq> JNull
   \<and> Routes (JNum 0) ''/login'' = LoginPage
   \<and> Routes (JNum 0) ''/login'' \<noteq> Navigate ''/dashboard''"
  by (simp add: restore_saved_user_def Routes_def route_key_login)

text \<open>
  C10, amended: for every pathname, when the user state is \<^verbatim>\<open>null\<close> or another falsy
  value the routes render the login page or a redirect to \<^verbatim>\<open>/login\<close>, and neither they
  nor AppContent (which may still show its spinner) render the dashboard layout, in
  whose outlet alone the child pages appear; when the user state is truthy, as every
  user object is, \<^verbatim>\<open>/login\<close> redirects to \<^verbatim>\<open>/dashboard\<close>.
\<close>

theorem routes_guarded_by_truthiness:
  "(\<not> truthy u \<longrightarrow>
      (Routes u pathname = LoginPage \<or> Routes u pathname = Navigate ''/login'')
      \<and> Routes u pathname \<noteq> DashboardLayout usr child
      \<and> AppContent \<lparr>app_user = u, app_loading = l, app_isProcessingOAuth = p\<rparr> pathname
            \<noteq> DashboardLayout usr child)
   \<and> (Routes JNull pathname = LoginPage \<or> Routes JNull pathname = Navigate ''/login'')
   \<and> Routes JNull pathname \<noteq> DashboardLayout usr child
   \<and> (truthy u \<longrightarrow> Routes u ''/login'' = Navigate ''/dashboard'')
   \<and> Routes (JObj kvs) ''/login'' = Navigate ''/dashboard''"
proof (intro conjI impI)
  assume f: "\<not> truthy u"
  from Routes_falsy [OF f]
  show "Routes u pathname = LoginPage \<or> Routes u pathname = Navigate ''/login''" .
  from Routes_falsy [OF f, of pathname]
  show "Routes u pathname \<noteq> DashboardLayout usr child" by auto
  from Routes_falsy [OF f, of pathname]
  show "AppContent \<lparr>app_user = u, app_loading = l, app_isProcessingOAuth = p\<rparr> pathname
            \<noteq> DashboardLayout usr child"
    by (auto simp add: AppContent_def)
next
  show "Routes JNull pathname = LoginPage \<or> Routes JNull pathname = Navigate ''/login''"
    by (rule Routes_falsy) simp
next
  have "Routes JNull pathname = LoginPage \<or> Routes JNull pathname = Navigate ''/login''"
    by (rule Routes_falsy) simp
  then show "Routes JNull pathname \<noteq> DashboardLayout usr child" by auto
next
  assume "truthy u"
  then show "Routes u ''/login'' = Navigate ''/dashboard''"
    by (simp add: Routes_def route_key_login)
next
  show "Routes (JObj kvs) ''/login'' = Navigate ''/dashboard''"
    by (simp add: Routes_def route_key_login)
qed

text \<open>
  The theorem at the falsy state \<^verbatim>\<open>undefined\<close> on the path of the triggers page, and at
  a user object on \<^verbatim>\<open>/login\<close>.
\<close>

theorem routes_guarded_by_truthiness_witness:
  "\<not> truthy JUndefined
   \<and> Routes JUndefined ''/dashboard/triggers'' = Navigate ''/login''
   \<and> truthy (JObj [(''user_id'', JNum 1)])
   \<and> Routes (JObj [(''user_id'', JNum 1)]) ''/login'' = Navigate ''/dashboard''"
proof -
  have f: "\<not> truthy JUndefined" by simp
  have t: "truthy (JObj [(''user_id'', JNum 1)])" by simp
  have "Routes JUndefined ''/dashboard/triggers'' \<noteq> LoginPage"
    by (simp add: Routes_def dashboard_element_def route_key_def lower_char_def)
  with routes_guarded_by_truthiness [of JUndefined "''/dashboard/triggers''"] f
  have "Routes JUndefined ''/dashboard/triggers'' = Navigate ''/login''" by blast
  moreover from routes_guarded_by_truthiness [of "JObj [(''user_id'', JNum 1)]"] t
  have "Routes (JObj [(''user_id'', JNum 1)]) ''/login'' = Navigate ''/dashboard''" by blast
  ultimately show ?thesis using f t by blast
qed

end
